theory Spec2Isabelle
  imports Complex_Main
begin

section \<open>Reconnection strategies of pika (\<^verbatim>\<open>pika/reconnection_strategies.py\<close>)\<close>

text \<open>
  The module defines the class \<^verbatim>\<open>ReconnectionStrategy\<close> (six lifecycle hooks that do
  nothing, and a class attribute \<^verbatim>\<open>_active\<close> read and written through every instance),
  its subclass \<^verbatim>\<open>NullReconnectionStrategy\<close> (nothing overridden) and its subclass
  \<^verbatim>\<open>SimpleReconnectionStrategy\<close> (randomised exponential backoff).

  Modelling decisions:
  \<^item> delays are Python floats in the source; here they are real numbers with exact
    arithmetic (rounding, infinities and NaN are not modelled);
  \<^item> \<^verbatim>\<open>attempts_since_last_success\<close> is a Python integer, here an \<open>int\<close>;
  \<^item> the class attribute \<^verbatim>\<open>ReconnectionStrategy._active\<close> is one field of the process
    state \<open>world\<close>, outside every instance;
  \<^item> the functions \<^verbatim>\<open>info\<close>, \<^verbatim>\<open>warning\<close> (module \<^verbatim>\<open>pika.log\<close>), \<^verbatim>\<open>random\<close> and the
    connection's \<^verbatim>\<open>add_timeout\<close> are not part of the module. Their behaviour is a
    parameter \<open>env\<close>: the value of each draw, and for each call of a logger or of
    \<^verbatim>\<open>add_timeout\<close> whether it raises. Every call made is appended to the process
    state, so "no timer is scheduled" is a statement about that list;
  \<^item> the methods are defined twice: first on typed objects (float parameters, a
    connection with its attributes), where only a collaborator can raise; then on
    untyped values, where the hook's own steps can raise too. The first definitions are
    the second ones restricted to typed objects (\<open>hook_py_typed\<close>);
  \<^item> a method returns its outcome (\<open>Inl e\<close> when the exception \<open>e\<close> leaves the method,
    \<open>Inr ()\<close> when it returns \<^verbatim>\<open>None\<close>) together with the instance and the process state
    as they are at that moment: an assignment made before an exception stays made.
\<close>

subsection \<open>Collaborators\<close>

datatype exn = Exn string

type_synonym err = string

type_synonym callback = string

text \<open>The connection object passed to every hook: the attributes the module reads.\<close>

record conn =
  parameters :: string
  reconnect :: callback

datatype arg = ArgStr string | ArgFloat real | ArgInt int | ArgErr err

datatype call =
    Info string "arg list"
  | Warning string "arg list"
  | AddTimeout real callback

record env =
  draws :: "nat \<Rightarrow> real"
  raises :: "call \<Rightarrow> exn option"

record world =
  active :: bool
  drawn :: nat
  calls :: "call list"

type_synonym outcome = "exn + unit"

definition random_py :: "env \<Rightarrow> world \<Rightarrow> real \<times> world" where
  "random_py e w = (draws e (drawn w), w\<lparr>drawn := Suc (drawn w)\<rparr>)"

definition collaborator :: "env \<Rightarrow> call \<Rightarrow> world \<Rightarrow> outcome \<times> world" where
  "collaborator e c w =
     ((case raises e c of None \<Rightarrow> Inr () | Some x \<Rightarrow> Inl x), w\<lparr>calls := calls w @ [c]\<rparr>)"

definition info :: "env \<Rightarrow> string \<Rightarrow> arg list \<Rightarrow> world \<Rightarrow> outcome \<times> world" where
  "info e fmt args w = collaborator e (Info fmt args) w"

definition warning :: "env \<Rightarrow> string \<Rightarrow> arg list \<Rightarrow> world \<Rightarrow> outcome \<times> world" where
  "warning e fmt args w = collaborator e (Warning fmt args) w"

definition add_timeout :: "env \<Rightarrow> real \<Rightarrow> callback \<Rightarrow> world \<Rightarrow> outcome \<times> world" where
  "add_timeout e t cb w = collaborator e (AddTimeout t cb) w"

subsection \<open>Class \<^verbatim>\<open>ReconnectionStrategy\<close>: the shared switch\<close>

text \<open>
  \<^verbatim>\<open>is_active\<close> returns \<^verbatim>\<open>ReconnectionStrategy._active\<close> and \<^verbatim>\<open>set_active\<close> assigns it:
  both name the class, so the instance they are called on plays no part.
\<close>

definition is_active :: "'self \<Rightarrow> world \<Rightarrow> bool" where
  "is_active self w = active w"

definition set_active :: "'self \<Rightarrow> bool \<Rightarrow> world \<Rightarrow> world" where
  "set_active self v w = w\<lparr>active := v\<rparr>"

subsection \<open>Class \<^verbatim>\<open>SimpleReconnectionStrategy\<close>\<close>

record simple_strategy =
  initial_retry_delay :: real
  multiplier :: real
  max_delay :: real
  jitter :: real
  current_delay :: real
  attempts_since_last_success :: int

definition reset :: "simple_strategy \<Rightarrow> simple_strategy" where
  "reset self =
     self\<lparr>current_delay := initial_retry_delay self, attempts_since_last_success := 0\<rparr>"

text \<open>
  \<^verbatim>\<open>__init__\<close> stores its four arguments and calls \<^verbatim>\<open>_reset\<close>, which gives the two
  remaining attributes their first values (the zeros below are overwritten by it).
\<close>

definition init :: "real \<Rightarrow> real \<Rightarrow> real \<Rightarrow> real \<Rightarrow> simple_strategy" where
  "init i m mx j =
     reset \<lparr>initial_retry_delay = i, multiplier = m, max_delay = mx, jitter = j,
            current_delay = 0, attempts_since_last_success = 0\<rparr>"

definition init_default :: simple_strategy where
  "init_default = init 1 2 30 (1 / 2)"

definition on_connect_attempt ::
  "conn \<Rightarrow> simple_strategy \<Rightarrow> world \<Rightarrow> outcome \<times> simple_strategy \<times> world" where
  "on_connect_attempt c self w =
     (Inr (), self\<lparr>attempts_since_last_success := attempts_since_last_success self + 1\<rparr>, w)"

definition on_connect_attempt_failure ::
  "env \<Rightarrow> conn \<Rightarrow> err \<Rightarrow> simple_strategy \<Rightarrow> world \<Rightarrow> outcome \<times> simple_strategy \<times> world" where
  "on_connect_attempt_failure e c er self w =
     (case warning e ''Connection failure (attempt %s): %s''
             [ArgInt (attempts_since_last_success self), ArgErr er] w of
        (r, w') \<Rightarrow> (r, self, w'))"

definition on_connection_open ::
  "conn \<Rightarrow> simple_strategy \<Rightarrow> world \<Rightarrow> outcome \<times> simple_strategy \<times> world" where
  "on_connection_open c self w = (Inr (), reset self, w)"

definition new_delay ::
  "env \<Rightarrow> simple_strategy \<Rightarrow> world \<Rightarrow> real \<times> simple_strategy \<times> world" where
  "new_delay e self w =
     (case random_py e w of
        (r, w') \<Rightarrow>
          (let t = current_delay self * ((r * jitter self) + 1) * multiplier self;
               self' = self\<lparr>current_delay := min (max_delay self) t\<rparr>
           in (current_delay self', self', w')))"

definition on_connection_closed ::
  "env \<Rightarrow> conn \<Rightarrow> simple_strategy \<Rightarrow> world \<Rightarrow> outcome \<times> simple_strategy \<times> world" where
  "on_connection_closed e c self w =
     (if \<not> is_active self w then (Inr (), self, w)
      else
        (case new_delay e self w of
           (t, self', w') \<Rightarrow>
             (case info e ''%s retrying %r in %r seconds (%r attempts)''
                     [ArgStr ''SimpleReconnectionStrategy'', ArgStr (parameters c), ArgFloat t,
                      ArgInt (attempts_since_last_success self')] w' of
                (Inl x, w'') \<Rightarrow> (Inl x, self', w'')
              | (Inr u, w'') \<Rightarrow>
                  (case add_timeout e t (reconnect c) w'' of
                     (r, w''') \<Rightarrow> (r, self', w''')))))"

subsection \<open>The three classes and the dispatch of the hooks\<close>

datatype strategy =
    ReconnectionStrategy
  | NullReconnectionStrategy
  | SimpleReconnectionStrategy simple_strategy

fun can_reconnect :: "strategy \<Rightarrow> bool" where
  "can_reconnect (SimpleReconnectionStrategy s) = True"
| "can_reconnect st = False"

datatype event =
    ConnectAttempt conn
  | ConnectAttemptFailure conn err
  | TransportConnected conn
  | TransportDisconnected conn
  | ConnectionOpen conn
  | ConnectionClosed conn

text \<open>
  One hook call on an instance of any of the three classes. The simple strategy
  overrides four hooks; every other combination runs the body of the base class, which
  is a docstring only.
\<close>

definition lift_simple ::
  "outcome \<times> simple_strategy \<times> world \<Rightarrow> outcome \<times> strategy \<times> world" where
  "lift_simple x = (case x of (r, s, w) \<Rightarrow> (r, SimpleReconnectionStrategy s, w))"

fun hook :: "env \<Rightarrow> event \<Rightarrow> strategy \<Rightarrow> world \<Rightarrow> outcome \<times> strategy \<times> world" where
  "hook e (ConnectAttempt c) (SimpleReconnectionStrategy s) w =
     lift_simple (on_connect_attempt c s w)"
| "hook e (ConnectAttemptFailure c er) (SimpleReconnectionStrategy s) w =
     lift_simple (on_connect_attempt_failure e c er s w)"
| "hook e (ConnectionOpen c) (SimpleReconnectionStrategy s) w =
     lift_simple (on_connection_open c s w)"
| "hook e (ConnectionClosed c) (SimpleReconnectionStrategy s) w =
     lift_simple (on_connection_closed e c s w)"
| "hook e ev st w = (Inr (), st, w)"

text \<open>
  A caller delivering a list of events to one instance, one after the other; an
  exception leaving a hook is recorded and the next event is still delivered. The
  result lists, for each call, its outcome and the instance and process state after it.
\<close>

fun run :: "env \<Rightarrow> event list \<Rightarrow> strategy \<Rightarrow> world \<Rightarrow> (outcome \<times> strategy \<times> world) list" where
  "run e [] st w = []"
| "run e (ev # evs) st w =
     (case hook e ev st w of (r, st', w') \<Rightarrow> (r, st', w') # run e evs st' w')"

text \<open>Successive \<^verbatim>\<open>on_connection_closed\<close> calls on one simple strategy.\<close>

fun closures ::
  "env \<Rightarrow> conn list \<Rightarrow> simple_strategy \<Rightarrow> world \<Rightarrow> (outcome \<times> simple_strategy \<times> world) list" where
  "closures e [] self w = []"
| "closures e (c # cs) self w =
     (case on_connection_closed e c self w of
        (r, self', w') \<Rightarrow> (r, self', w') # closures e cs self' w')"

subsection \<open>The hooks on untyped values\<close>

text \<open>
  Python checks nothing when the objects are built: \<^verbatim>\<open>__init__\<close> stores whatever it is
  given and a hook receives whatever connection object the caller passes. The
  definitions above fix floats for the four parameters and a connection that has the
  attributes read; the definitions of this subsection drop both restrictions, so that
  the steps of a hook that can raise by themselves have a branch of their own:
  \<^item> a numeric attribute is an int or a float (\<open>num\<close>). Every product and sum of
    \<^verbatim>\<open>new_delay\<close> has a float operand (the draw), so Python converts the other operand
    to a float, and the conversion of an int raises \<^verbatim>\<open>OverflowError\<close> when the int is
    too large;
  \<^item> each of \<^verbatim>\<open>conn.parameters\<close>, \<^verbatim>\<open>conn.add_timeout\<close> and \<^verbatim>\<open>conn._reconnect\<close> may be
    missing, and reading a missing attribute raises \<^verbatim>\<open>AttributeError\<close>;
  \<^item> an exception raised by a collaborator is \<open>Raised\<close>.
  Attributes holding other objects (a string, \<^verbatim>\<open>None\<close>), for which the arithmetic raises
  \<^verbatim>\<open>TypeError\<close>, are not modelled; floats stay exact reals.
\<close>

datatype py_exn = Raised exn | AttributeError string | OverflowError

datatype num = PyInt int | PyFloat real

text \<open>
  An int converts to a float unless it would round to \<open>2 ^ 1024\<close>, that is unless its
  absolute value is at least \<open>2 ^ 1024 - 2 ^ 970\<close>. \<^verbatim>\<open>min(a, b)\<close> returns \<open>b\<close> when
  \<open>b < a\<close> and \<open>a\<close> otherwise; an int and a float are compared by value, without
  conversion.
\<close>

definition float_limit :: int where
  "float_limit = 2 ^ 1024 - 2 ^ 970"

definition as_float :: "num \<Rightarrow> py_exn + real" where
  "as_float v =
     (case v of
        PyFloat x \<Rightarrow> Inr x
      | PyInt n \<Rightarrow> if float_limit \<le> \<bar>n\<bar> then Inl OverflowError else Inr (of_int n))"

definition value_of :: "num \<Rightarrow> real" where
  "value_of v = (case v of PyFloat x \<Rightarrow> x | PyInt n \<Rightarrow> of_int n)"

definition min_py :: "num \<Rightarrow> num \<Rightarrow> num" where
  "min_py a b = (if value_of b < value_of a then b else a)"

definition num_arg :: "num \<Rightarrow> arg" where
  "num_arg v = (case v of PyFloat x \<Rightarrow> ArgFloat x | PyInt n \<Rightarrow> ArgInt n)"

text \<open>A connection object, each attribute present or not.\<close>

record conn_obj =
  attr_parameters :: "string option"
  attr_reconnect :: "callback option"
  attr_add_timeout :: bool

definition getattr :: "'a option \<Rightarrow> string \<Rightarrow> py_exn + 'a" where
  "getattr a name = (case a of None \<Rightarrow> Inl (AttributeError name) | Some v \<Rightarrow> Inr v)"

definition from_collaborator :: "outcome \<times> world \<Rightarrow> (py_exn + unit) \<times> world" where
  "from_collaborator x = (case x of (Inl y, w) \<Rightarrow> (Inl (Raised y), w) | (Inr u, w) \<Rightarrow> (Inr (), w))"

text \<open>
  The simple strategy again, method by method. In \<^verbatim>\<open>new_delay\<close> the draw is taken
  first; then the operands are converted in the order of evaluation of
  \<^verbatim>\<open>self.current_delay * ((random() * self.jitter) + 1) * self.multiplier\<close>: the jitter,
  the current delay, the multiplier. In \<^verbatim>\<open>on_connection_closed\<close> the arguments of
  \<^verbatim>\<open>info\<close> are evaluated before the call (\<^verbatim>\<open>conn.parameters\<close>), and \<^verbatim>\<open>conn.add_timeout\<close>
  is looked up before its argument \<^verbatim>\<open>conn._reconnect\<close>.
\<close>

record simple_obj =
  initial_retry_delay_py :: num
  multiplier_py :: num
  max_delay_py :: num
  jitter_py :: num
  current_delay_py :: num
  attempts_since_last_success_py :: int

definition reset_py :: "simple_obj \<Rightarrow> simple_obj" where
  "reset_py self =
     self\<lparr>current_delay_py := initial_retry_delay_py self, attempts_since_last_success_py := 0\<rparr>"


definition on_connect_attempt_py ::
  "conn_obj \<Rightarrow> simple_obj \<Rightarrow> world \<Rightarrow> (py_exn + unit) \<times> simple_obj \<times> world" where
  "on_connect_attempt_py c self w =
     (Inr (),
      self\<lparr>attempts_since_last_success_py := attempts_since_last_success_py self + 1\<rparr>, w)"

definition on_connect_attempt_failure_py ::
  "env \<Rightarrow> conn_obj \<Rightarrow> err \<Rightarrow> simple_obj \<Rightarrow> world \<Rightarrow> (py_exn + unit) \<times> simple_obj \<times> world" where
  "on_connect_attempt_failure_py e c er self w =
     (case from_collaborator
             (warning e ''Connection failure (attempt %s): %s''
                [ArgInt (attempts_since_last_success_py self), ArgErr er] w) of
        (r, w') \<Rightarrow> (r, self, w'))"

definition on_connection_open_py ::
  "conn_obj \<Rightarrow> simple_obj \<Rightarrow> world \<Rightarrow> (py_exn + unit) \<times> simple_obj \<times> world" where
  "on_connection_open_py c self w = (Inr (), reset_py self, w)"

definition new_delay_py ::
  "env \<Rightarrow> simple_obj \<Rightarrow> world \<Rightarrow> (py_exn + num) \<times> simple_obj \<times> world" where
  "new_delay_py e self w =
     (case random_py e w of
        (r, w') \<Rightarrow>
          (case as_float (jitter_py self) of
             Inl x \<Rightarrow> (Inl x, self, w')
           | Inr j \<Rightarrow>
               (case as_float (current_delay_py self) of
                  Inl x \<Rightarrow> (Inl x, self, w')
                | Inr cd \<Rightarrow>
                    (case as_float (multiplier_py self) of
                       Inl x \<Rightarrow> (Inl x, self, w')
                     | Inr m \<Rightarrow>
                         (let t = cd * ((r * j) + 1) * m;
                              self' = self\<lparr>current_delay_py :=
                                        min_py (max_delay_py self) (PyFloat t)\<rparr>
                          in (Inr (current_delay_py self'), self', w'))))))"

definition on_connection_closed_py ::
  "env \<Rightarrow> conn_obj \<Rightarrow> simple_obj \<Rightarrow> world \<Rightarrow> (py_exn + unit) \<times> simple_obj \<times> world" where
  "on_connection_closed_py e c self w =
     (if \<not> is_active self w then (Inr (), self, w)
      else
        (case new_delay_py e self w of
           (Inl x, self', w') \<Rightarrow> (Inl x, self', w')
         | (Inr t, self', w') \<Rightarrow>
             (case getattr (attr_parameters c) ''parameters'' of
                Inl x \<Rightarrow> (Inl x, self', w')
              | Inr p \<Rightarrow>
                  (case from_collaborator
                          (info e ''%s retrying %r in %r seconds (%r attempts)''
                             [ArgStr ''SimpleReconnectionStrategy'', ArgStr p, num_arg t,
                              ArgInt (attempts_since_last_success_py self')] w') of
                     (Inl x, w'') \<Rightarrow> (Inl x, self', w'')
                   | (Inr u, w'') \<Rightarrow>
                       (if \<not> attr_add_timeout c
                        then (Inl (AttributeError ''add_timeout''), self', w'')
                        else
                          (case getattr (attr_reconnect c) ''_reconnect'' of
                             Inl x \<Rightarrow> (Inl x, self', w'')
                           | Inr cb \<Rightarrow>
                               (case from_collaborator (add_timeout e (value_of t) cb w'') of
                                  (r, w''') \<Rightarrow> (r, self', w'''))))))))"

datatype strategy_obj =
    ReconnectionStrategyObj
  | NullReconnectionStrategyObj
  | SimpleReconnectionStrategyObj simple_obj

datatype event_py =
    ConnectAttemptPy conn_obj
  | ConnectAttemptFailurePy conn_obj err
  | TransportConnectedPy conn_obj
  | TransportDisconnectedPy conn_obj
  | ConnectionOpenPy conn_obj
  | ConnectionClosedPy conn_obj

definition lift_simple_py ::
  "(py_exn + unit) \<times> simple_obj \<times> world \<Rightarrow> (py_exn + unit) \<times> strategy_obj \<times> world" where
  "lift_simple_py x = (case x of (r, s, w) \<Rightarrow> (r, SimpleReconnectionStrategyObj s, w))"

fun hook_py ::
  "env \<Rightarrow> event_py \<Rightarrow> strategy_obj \<Rightarrow> world \<Rightarrow> (py_exn + unit) \<times> strategy_obj \<times> world" where
  "hook_py e (ConnectAttemptPy c) (SimpleReconnectionStrategyObj s) w =
     lift_simple_py (on_connect_attempt_py c s w)"
| "hook_py e (ConnectAttemptFailurePy c er) (SimpleReconnectionStrategyObj s) w =
     lift_simple_py (on_connect_attempt_failure_py e c er s w)"
| "hook_py e (ConnectionOpenPy c) (SimpleReconnectionStrategyObj s) w =
     lift_simple_py (on_connection_open_py c s w)"
| "hook_py e (ConnectionClosedPy c) (SimpleReconnectionStrategyObj s) w =
     lift_simple_py (on_connection_closed_py e c s w)"
| "hook_py e ev st w = (Inr (), st, w)"





text \<open>The typed objects of the preceding subsections, seen as untyped ones.\<close>

definition obj_of :: "simple_strategy \<Rightarrow> simple_obj" where
  "obj_of s =
     \<lparr>initial_retry_delay_py = PyFloat (initial_retry_delay s),
      multiplier_py = PyFloat (multiplier s),
      max_delay_py = PyFloat (max_delay s),
      jitter_py = PyFloat (jitter s),
      current_delay_py = PyFloat (current_delay s),
      attempts_since_last_success_py = attempts_since_last_success s\<rparr>"

definition conn_obj_of :: "conn \<Rightarrow> conn_obj" where
  "conn_obj_of c =
     \<lparr>attr_parameters = Some (parameters c), attr_reconnect = Some (reconnect c),
      attr_add_timeout = True\<rparr>"

fun strategy_obj_of :: "strategy \<Rightarrow> strategy_obj" where
  "strategy_obj_of ReconnectionStrategy = ReconnectionStrategyObj"
| "strategy_obj_of NullReconnectionStrategy = NullReconnectionStrategyObj"
| "strategy_obj_of (SimpleReconnectionStrategy s) = SimpleReconnectionStrategyObj (obj_of s)"

fun event_py_of :: "event \<Rightarrow> event_py" where
  "event_py_of (ConnectAttempt c) = ConnectAttemptPy (conn_obj_of c)"
| "event_py_of (ConnectAttemptFailure c er) = ConnectAttemptFailurePy (conn_obj_of c) er"
| "event_py_of (TransportConnected c) = TransportConnectedPy (conn_obj_of c)"
| "event_py_of (TransportDisconnected c) = TransportDisconnectedPy (conn_obj_of c)"
| "event_py_of (ConnectionOpen c) = ConnectionOpenPy (conn_obj_of c)"
| "event_py_of (ConnectionClosed c) = ConnectionClosedPy (conn_obj_of c)"

definition result_py_of ::
  "outcome \<times> strategy \<times> world \<Rightarrow> (py_exn + unit) \<times> strategy_obj \<times> world" where
  "result_py_of x =
     (case x of
        (Inl y, st, w) \<Rightarrow> (Inl (Raised y), strategy_obj_of st, w)
      | (Inr u, st, w) \<Rightarrow> (Inr (), strategy_obj_of st, w))"

subsection \<open>The reference recurrence and observations on the process state\<close>

text \<open>
  The delay sequence as the specification words it: from the current delay and a list
  of draws, \<open>next = current_delay * ((draw * jitter) + 1) * multiplier\<close>, capped at
  \<open>max_delay\<close>; each result is the current delay of the following step.
\<close>

fun reference_delays :: "real \<Rightarrow> real \<Rightarrow> real \<Rightarrow> real \<Rightarrow> real list \<Rightarrow> real list" where
  "reference_delays cd j m mx [] = []"
| "reference_delays cd j m mx (draw # ds) =
     (let next = min mx (cd * ((draw * j) + 1) * m)
      in next # reference_delays next j m mx ds)"

text \<open>The delays of the timers requested so far, oldest first.\<close>

fun scheduled :: "call list \<Rightarrow> real list" where
  "scheduled [] = []"
| "scheduled (AddTimeout t cb # cs) = t # scheduled cs"
| "scheduled (c # cs) = scheduled cs"

text \<open>The process state after the last call of a list of calls started in \<open>w\<close>.\<close>

fun final_world :: "world \<Rightarrow> (outcome \<times> 'a \<times> world) list \<Rightarrow> world" where
  "final_world w [] = w"
| "final_world w (x # xs) = final_world (snd (snd x)) xs"

subsection \<open>Concrete collaborators\<close>

definition conn0 :: conn where
  "conn0 = \<lparr>parameters = ''localhost:5672'', reconnect = ''_reconnect''\<rparr>"

text \<open>Collaborators that never raise, with every draw equal to \<open>d\<close>.\<close>

definition quiet :: "real \<Rightarrow> env" where
  "quiet d = \<lparr>draws = (\<lambda>n. d), raises = (\<lambda>c. None)\<rparr>"

definition world0 :: "bool \<Rightarrow> world" where
  "world0 a = \<lparr>active = a, drawn = 0, calls = []\<rparr>"



section \<open>Properties\<close>

subsection \<open>One call of \<^verbatim>\<open>new_delay\<close> and of \<^verbatim>\<open>on_connection_closed\<close>\<close>

lemma new_delay_eq:
  "new_delay e self w =
     (min (max_delay self)
        (current_delay self * (draws e (drawn w) * jitter self + 1) * multiplier self),
      self\<lparr>current_delay :=
        min (max_delay self)
          (current_delay self * (draws e (drawn w) * jitter self + 1) * multiplier self)\<rparr>,
      w\<lparr>drawn := Suc (drawn w)\<rparr>)"
  by (simp add: new_delay_def random_py_def Let_def)

lemma closed_inactive:
  "\<not> active w \<Longrightarrow> on_connection_closed e c self w = (Inr (), self, w)"
  by (simp add: on_connection_closed_def is_active_def)

lemma closed_self:
  "fst (snd (on_connection_closed e c self w)) =
     (if active w then fst (snd (new_delay e self w)) else self)"
  by (simp add: on_connection_closed_def is_active_def info_def add_timeout_def collaborator_def
      new_delay_eq split: prod.splits sum.splits option.splits)

lemma closed_world:
  "active (snd (snd (on_connection_closed e c self w))) = active w"
  "drawn (snd (snd (on_connection_closed e c self w))) =
     (if active w then Suc (drawn w) else drawn w)"
  by (simp_all add: on_connection_closed_def is_active_def info_def add_timeout_def
      collaborator_def new_delay_eq split: prod.splits sum.splits option.splits)

lemma scheduled_append: "scheduled (xs @ ys) = scheduled xs @ scheduled ys"
  by (induction xs rule: scheduled.induct) simp_all

lemma closed_calls_quiet:
  assumes "\<forall>c. raises e c = None" "active w"
  shows "scheduled (calls (snd (snd (on_connection_closed e c self w)))) =
     scheduled (calls w) @ [fst (new_delay e self w)]"
  using assms
  by (simp add: on_connection_closed_def is_active_def info_def add_timeout_def collaborator_def
      new_delay_eq scheduled_append)

text \<open>The factor applied to the delay is at least one.\<close>

lemma step_lower:
  fixes cd :: real
  assumes "0 \<le> cd" "1 \<le> m" "0 \<le> j" "0 \<le> d"
  shows "cd \<le> cd * (d * j + 1) * m"
proof -
  have "1 \<le> d * j + 1" using assms by simp
  then have "1 * 1 \<le> (d * j + 1) * m" using assms by (intro mult_mono) simp_all
  then have "cd * 1 \<le> cd * ((d * j + 1) * m)" using assms by (intro mult_left_mono) simp_all
  then show ?thesis by (simp add: mult.assoc)
qed

subsection \<open>Successive closures\<close>

lemma upt_first: "[k ..< k + length (c # cs)] = k # [Suc k ..< Suc k + length cs]"
  by (subst upt_rec) simp

lemma closures_Cons:
  "closures e (c # cs) self w =
     on_connection_closed e c self w #
     closures e cs (fst (snd (on_connection_closed e c self w)))
       (snd (snd (on_connection_closed e c self w)))"
  by (simp split: prod.splits)

lemma closures_length: "length (closures e cs self w) = length cs"
  by (induction cs arbitrary: self w) (simp_all split: prod.splits)

lemma closures_delays:
  "active w \<Longrightarrow>
   map (\<lambda>x. current_delay (fst (snd x))) (closures e cs self w) =
   reference_delays (current_delay self) (jitter self) (multiplier self) (max_delay self)
     (map (draws e) [drawn w ..< drawn w + length cs])"
proof (induction cs arbitrary: self w)
  case Nil
  then show ?case by simp
next
  case (Cons c cs)
  let ?r = "on_connection_closed e c self w"
  have a: "active (snd (snd ?r))" using Cons.prems by (simp add: closed_world)
  have d: "drawn (snd (snd ?r)) = Suc (drawn w)" using Cons.prems by (simp add: closed_world)
  have s: "fst (snd ?r) = fst (snd (new_delay e self w))" using Cons.prems by (simp add: closed_self)
  have u: "[drawn w ..< drawn w + length (c # cs)] = drawn w # [Suc (drawn w) ..< Suc (drawn w) + length cs]"
    by (rule upt_first)
  show ?case
    unfolding closures_Cons u
    using Cons.IH [OF a] by (simp add: d s new_delay_eq Let_def)
qed

lemma closures_scheduled:
  "\<forall>c. raises e c = None \<Longrightarrow> active w \<Longrightarrow>
   scheduled (calls (final_world w (closures e cs self w))) =
   scheduled (calls w) @
   reference_delays (current_delay self) (jitter self) (multiplier self) (max_delay self)
     (map (draws e) [drawn w ..< drawn w + length cs])"
proof (induction cs arbitrary: self w)
  case Nil
  then show ?case by simp
next
  case (Cons c cs)
  let ?r = "on_connection_closed e c self w"
  have a: "active (snd (snd ?r))" using Cons.prems by (simp add: closed_world)
  have d: "drawn (snd (snd ?r)) = Suc (drawn w)" using Cons.prems by (simp add: closed_world)
  have s: "fst (snd ?r) = fst (snd (new_delay e self w))" using Cons.prems by (simp add: closed_self)
  have u: "[drawn w ..< drawn w + length (c # cs)] = drawn w # [Suc (drawn w) ..< Suc (drawn w) + length cs]"
    by (rule upt_first)
  show ?case
    unfolding closures_Cons u
    using Cons.IH [OF Cons.prems(1) a] closed_calls_quiet [OF Cons.prems]
    by (simp add: d s new_delay_eq Let_def)
qed

lemma closures_invariant:
  assumes "0 < initial_retry_delay self" "1 < multiplier self" "0 \<le> jitter self"
    and "\<forall>n. 0 \<le> draws e n"
    and "active w"
    and "initial_retry_delay self \<le> current_delay self" "current_delay self \<le> max_delay self"
    and "x \<in> set (closures e cs self w)"
  shows "initial_retry_delay (fst (snd x)) = initial_retry_delay self
       \<and> max_delay (fst (snd x)) = max_delay self
       \<and> initial_retry_delay self \<le> current_delay (fst (snd x))
       \<and> current_delay (fst (snd x)) \<le> max_delay self"
  using assms
proof (induction cs arbitrary: self w)
  case Nil
  then show ?case by simp
next
  case (Cons c cs)
  let ?r = "on_connection_closed e c self w"
  let ?s = "fst (snd ?r)"
  have a: "active (snd (snd ?r))" using Cons.prems by (simp add: closed_world)
  have s: "?s = fst (snd (new_delay e self w))" using Cons.prems by (simp add: closed_self)
  have low: "current_delay self \<le>
      current_delay self * (draws e (drawn w) * jitter self + 1) * multiplier self"
  proof (rule step_lower)
    show "0 \<le> current_delay self" using Cons.prems(1,6) by linarith
    show "1 \<le> multiplier self" using Cons.prems(2) by simp
    show "0 \<le> jitter self" using Cons.prems(3) by simp
    show "0 \<le> draws e (drawn w)" using Cons.prems(4) by simp
  qed
  have f: "initial_retry_delay ?s = initial_retry_delay self" "max_delay ?s = max_delay self"
    "multiplier ?s = multiplier self" "jitter ?s = jitter self"
    by (simp_all add: s new_delay_eq)
  have cds: "current_delay ?s = min (max_delay self)
      (current_delay self * (draws e (drawn w) * jitter self + 1) * multiplier self)"
    by (simp add: s new_delay_eq)
  have b: "initial_retry_delay self \<le> current_delay ?s" "current_delay ?s \<le> max_delay self"
    unfolding cds using low Cons.prems(6,7) by linarith+
  from Cons.prems(8) have "x = ?r \<or> x \<in> set (closures e cs ?s (snd (snd ?r)))"
    unfolding closures_Cons by simp
  then show ?case
  proof
    assume "x = ?r"
    then show ?thesis using f b by simp
  next
    assume "x \<in> set (closures e cs ?s (snd (snd ?r)))"
    from Cons.IH [of ?s "snd (snd ?r)", OF _ _ _ Cons.prems(4) a _ _ this]
    show ?thesis using f b Cons.prems by simp
  qed
qed

subsection \<open>The delay stays between its bounds\<close>

text \<open>
  Claim C1. A simple strategy is constructed with \<open>initial_retry_delay > 0\<close>,
  \<open>multiplier > 1\<close>, \<open>max_delay \<ge> initial_retry_delay\<close> and \<open>jitter \<ge> 0\<close>; the switch is
  on and every draw lies in \<open>[0, 1)\<close>. Then after each call of any list of successive
  \<^verbatim>\<open>on_connection_closed\<close> calls, \<open>initial_retry_delay \<le> current_delay \<le> max_delay\<close>, the
  two bounds being those given to the constructor. (No hook writes the switch, so it
  is on at every call of the list.)
\<close>

theorem current_delay_within_bounds:
  assumes "0 < i" "1 < m" "i \<le> mx" "0 \<le> j"
    and "\<forall>n. 0 \<le> draws e n \<and> draws e n < 1"
    and "is_active (init i m mx j) w"
    and "x \<in> set (closures e cs (init i m mx j) w)"
  shows "initial_retry_delay (fst (snd x)) = i \<and> max_delay (fst (snd x)) = mx
       \<and> i \<le> current_delay (fst (snd x)) \<and> current_delay (fst (snd x)) \<le> mx"
proof -
  let ?s = "init i m mx j"
  have f: "initial_retry_delay ?s = i" "multiplier ?s = m" "max_delay ?s = mx" "jitter ?s = j"
    "current_delay ?s = i"
    by (simp_all add: init_def reset_def)
  have d: "\<forall>n. 0 \<le> draws e n" using assms(5) by simp
  have a: "active w" using assms(6) by (simp add: is_active_def)
  from closures_invariant [of ?s e w x cs, unfolded f, OF assms(1,2,4) d a _ assms(3) assms(7)]
  show ?thesis by simp
qed

theorem current_delay_within_bounds_witness:
  "closures (quiet (1 / 2)) [conn0, conn0] (init 1 2 30 (1 / 2)) (world0 True) ! 1 =
     (Inr (), (init 1 2 30 (1 / 2))\<lparr>current_delay := 25 / 4\<rparr>,
      \<lparr>active = True, drawn = 2,
       calls = [Info ''%s retrying %r in %r seconds (%r attempts)''
                  [ArgStr ''SimpleReconnectionStrategy'', ArgStr ''localhost:5672'',
                   ArgFloat (5 / 2), ArgInt 0],
                AddTimeout (5 / 2) ''_reconnect'',
                Info ''%s retrying %r in %r seconds (%r attempts)''
                  [ArgStr ''SimpleReconnectionStrategy'', ArgStr ''localhost:5672'',
                   ArgFloat (25 / 4), ArgInt 0],
                AddTimeout (25 / 4) ''_reconnect'']\<rparr>)
   \<and> (1::real) \<le> current_delay
         (fst (snd (closures (quiet (1 / 2)) [conn0, conn0] (init 1 2 30 (1 / 2)) (world0 True) ! 1)))
   \<and> current_delay
         (fst (snd (closures (quiet (1 / 2)) [conn0, conn0] (init 1 2 30 (1 / 2)) (world0 True) ! 1)))
       \<le> 30"
proof -
  let ?cl = "closures (quiet (1 / 2)) [conn0, conn0] (init 1 2 30 (1 / 2)) (world0 True)"
  have v: "?cl ! 1 =
     (Inr (), (init 1 2 30 (1 / 2))\<lparr>current_delay := 25 / 4\<rparr>,
      \<lparr>active = True, drawn = 2,
       calls = [Info ''%s retrying %r in %r seconds (%r attempts)''
                  [ArgStr ''SimpleReconnectionStrategy'', ArgStr ''localhost:5672'',
                   ArgFloat (5 / 2), ArgInt 0],
                AddTimeout (5 / 2) ''_reconnect'',
                Info ''%s retrying %r in %r seconds (%r attempts)''
                  [ArgStr ''SimpleReconnectionStrategy'', ArgStr ''localhost:5672'',
                   ArgFloat (25 / 4), ArgInt 0],
                AddTimeout (25 / 4) ''_reconnect'']\<rparr>)"
    by (simp add: on_connection_closed_def is_active_def new_delay_eq info_def add_timeout_def
        collaborator_def quiet_def world0_def conn0_def init_def reset_def)
  have m: "?cl ! 1 \<in> set ?cl"
    by (rule nth_mem) (simp only: closures_length, simp)
  have d: "\<forall>n. 0 \<le> draws (quiet (1 / 2)) n \<and> draws (quiet (1 / 2)) n < 1"
    by (simp add: quiet_def)
  have a: "is_active (init 1 2 30 (1 / 2)) (world0 True)"
    by (simp add: is_active_def world0_def)
  from current_delay_within_bounds [of 1 2 30 "1 / 2", OF _ _ _ _ d a m] v
  show ?thesis by simp
qed

subsection \<open>The delay sequence is the reference recurrence\<close>

text \<open>
  Claim C2. With the switch on, the delays stored by successive \<^verbatim>\<open>on_connection_closed\<close>
  calls are those of the reference recurrence run on the draws these calls take, from
  the delay the strategy starts with; when no collaborator raises they are also, in
  order, the delays of the timers requested. With the default parameters, two closures
  with draw 0 give 2 then 4; with draw 1 a closure replaces the delay \<open>cd\<close> by
  \<open>min 30 (cd * 3)\<close>, and from 4 two closures give 12 then 30.
\<close>

theorem delays_follow_reference_recurrence:
  "(is_active self w \<longrightarrow>
      map (\<lambda>x. current_delay (fst (snd x))) (closures e cs self w) =
      reference_delays (current_delay self) (jitter self) (multiplier self) (max_delay self)
        (map (draws e) [drawn w ..< drawn w + length cs]))
   \<and> (is_active self w \<and> (\<forall>c. raises e c = None) \<longrightarrow>
      scheduled (calls (final_world w (closures e cs self w))) =
      scheduled (calls w) @
      reference_delays (current_delay self) (jitter self) (multiplier self) (max_delay self)
        (map (draws e) [drawn w ..< drawn w + length cs]))
   \<and> map (\<lambda>x. current_delay (fst (snd x)))
        (closures (quiet 0) [conn0, conn0] init_default (world0 True)) = [2, 4]
   \<and> scheduled (calls (final_world (world0 True)
        (closures (quiet 0) [conn0, conn0] init_default (world0 True)))) = [2, 4]
   \<and> current_delay (fst (snd (on_connection_closed (quiet 1) conn0
        (init_default\<lparr>current_delay := cd\<rparr>) (world0 True)))) = min 30 (cd * 3)
   \<and> map (\<lambda>x. current_delay (fst (snd x)))
        (closures (quiet 1) [conn0, conn0] (init_default\<lparr>current_delay := 4\<rparr>) (world0 True)) =
       [12, 30]"
proof -
  have g1: "is_active self w \<longrightarrow>
      map (\<lambda>x. current_delay (fst (snd x))) (closures e cs self w) =
      reference_delays (current_delay self) (jitter self) (multiplier self) (max_delay self)
        (map (draws e) [drawn w ..< drawn w + length cs])"
    by (simp add: is_active_def closures_delays)
  have g2: "is_active self w \<and> (\<forall>c. raises e c = None) \<longrightarrow>
      scheduled (calls (final_world w (closures e cs self w))) =
      scheduled (calls w) @
      reference_delays (current_delay self) (jitter self) (multiplier self) (max_delay self)
        (map (draws e) [drawn w ..< drawn w + length cs])"
    by (simp add: is_active_def closures_scheduled)
  have c1: "map (\<lambda>x. current_delay (fst (snd x)))
        (closures (quiet 0) [conn0, conn0] init_default (world0 True)) = [2, 4]"
    by (simp add: on_connection_closed_def is_active_def new_delay_eq info_def add_timeout_def
        collaborator_def quiet_def world0_def conn0_def init_default_def init_def reset_def)
  have c2: "scheduled (calls (final_world (world0 True)
        (closures (quiet 0) [conn0, conn0] init_default (world0 True)))) = [2, 4]"
    by (simp add: on_connection_closed_def is_active_def new_delay_eq info_def add_timeout_def
        collaborator_def quiet_def world0_def conn0_def init_default_def init_def reset_def)
  have c3: "current_delay (fst (snd (on_connection_closed (quiet 1) conn0
        (init_default\<lparr>current_delay := cd\<rparr>) (world0 True)))) = min 30 (cd * 3)"
    by (simp add: closed_self new_delay_eq quiet_def world0_def init_default_def init_def
        reset_def)
  have c4: "map (\<lambda>x. current_delay (fst (snd x)))
        (closures (quiet 1) [conn0, conn0] (init_default\<lparr>current_delay := 4\<rparr>) (world0 True)) =
       [12, 30]"
    by (simp add: on_connection_closed_def is_active_def new_delay_eq info_def add_timeout_def
        collaborator_def quiet_def world0_def conn0_def init_default_def init_def reset_def)
  from g1 g2 c1 c2 c3 c4 show ?thesis by blast
qed

theorem delays_follow_reference_recurrence_witness:
  "is_active init_default (world0 True)
   \<and> map (\<lambda>x. current_delay (fst (snd x)))
        (closures (quiet (1 / 2)) [conn0, conn0] init_default (world0 True)) =
       reference_delays 1 (1 / 2) 2 30 [1 / 2, 1 / 2]
   \<and> reference_delays 1 (1 / 2) 2 30 [1 / 2, 1 / 2] = [5 / 2, 25 / 4]"
proof -
  have a: "is_active init_default (world0 True)"
    by (simp add: is_active_def world0_def)
  have u: "map (draws (quiet (1 / 2))) [drawn (world0 True) ..< drawn (world0 True) + length [conn0, conn0]]
      = [1 / 2, 1 / 2]"
    by (simp add: quiet_def world0_def upt_rec)
  have f: "current_delay init_default = 1" "jitter init_default = 1 / 2"
    "multiplier init_default = 2" "max_delay init_default = 30"
    by (simp_all add: init_default_def init_def reset_def)
  have r: "reference_delays 1 (1 / 2) 2 30 [1 / 2, 1 / 2] = [5 / 2, 25 / 4]"
    by (simp add: Let_def)
  from delays_follow_reference_recurrence
    [of init_default "world0 True" "quiet (1 / 2)" "[conn0, conn0]", THEN conjunct1, THEN mp, OF a]
  have "map (\<lambda>x. current_delay (fst (snd x)))
        (closures (quiet (1 / 2)) [conn0, conn0] init_default (world0 True)) =
       reference_delays 1 (1 / 2) 2 30 [1 / 2, 1 / 2]"
    unfolding u f .
  with a r show ?thesis by simp
qed

subsection \<open>The delay never decreases\<close>

text \<open>
  Claim C9, as the claim words it, fails: with \<open>multiplier \<ge> 1\<close>, \<open>jitter \<ge> 0\<close>, a draw
  in \<open>[0, 1)\<close> and the switch on, a strategy constructed with
  \<open>initial_retry_delay = 10\<close> and \<open>max_delay = 5\<close> goes from 10 to 5 at its first closure
  (the cap), and one constructed with \<open>initial_retry_delay = - 1\<close> goes from \<open>- 1\<close> to
  \<open>- 2\<close> (a negative delay times a factor of at least one). The constructor checks none
  of its arguments.
\<close>

theorem current_delay_non_decreasing_counterexample:
  "1 \<le> multiplier (init 10 2 5 (1 / 2)) \<and> 0 \<le> jitter (init 10 2 5 (1 / 2))
   \<and> 0 \<le> draws (quiet 0) (drawn (world0 True)) \<and> draws (quiet 0) (drawn (world0 True)) < 1
   \<and> is_active (init 10 2 5 (1 / 2)) (world0 True)
   \<and> current_delay (init 10 2 5 (1 / 2)) = 10
   \<and> current_delay (fst (snd (on_connection_closed (quiet 0) conn0 (init 10 2 5 (1 / 2))
        (world0 True)))) = 5
   \<and> 1 \<le> multiplier (init (- 1) 2 30 (1 / 2)) \<and> 0 \<le> jitter (init (- 1) 2 30 (1 / 2))
   \<and> current_delay (init (- 1) 2 30 (1 / 2)) = - 1
   \<and> current_delay (fst (snd (on_connection_closed (quiet 0) conn0 (init (- 1) 2 30 (1 / 2))
        (world0 True)))) = - 2"
  by (simp add: closed_self new_delay_eq is_active_def quiet_def world0_def init_def reset_def)

text \<open>
  Claim C9, amended. If moreover \<open>0 \<le> current_delay \<le> max_delay\<close> holds before the first
  call (as it does after construction with \<open>0 \<le> initial_retry_delay \<le> max_delay\<close>), then
  with \<open>multiplier \<ge> 1\<close>, \<open>jitter \<ge> 0\<close>, every draw in \<open>[0, 1)\<close> and the switch on, the
  delay before the first call followed by the delays after each successive
  \<^verbatim>\<open>on_connection_closed\<close> call is a non-decreasing sequence.
\<close>

theorem current_delay_non_decreasing:
  assumes "1 \<le> multiplier self" "0 \<le> jitter self"
    and "\<forall>n. 0 \<le> draws e n \<and> draws e n < 1"
    and "0 \<le> current_delay self" "current_delay self \<le> max_delay self"
    and "is_active self w"
  shows "sorted (current_delay self #
           map (\<lambda>x. current_delay (fst (snd x))) (closures e cs self w))"
  using assms
proof (induction cs arbitrary: self w)
  case Nil
  then show ?case by simp
next
  case (Cons c cs)
  let ?r = "on_connection_closed e c self w"
  let ?s = "fst (snd ?r)"
  let ?t = "current_delay self * (draws e (drawn w) * jitter self + 1) * multiplier self"
  have a: "active w" using Cons.prems(6) by (simp add: is_active_def)
  have a': "is_active ?s (snd (snd ?r))" using a by (simp add: is_active_def closed_world)
  have s: "?s = fst (snd (new_delay e self w))" using a by (simp add: closed_self)
  have f: "multiplier ?s = multiplier self" "jitter ?s = jitter self" "max_delay ?s = max_delay self"
    by (simp_all add: s new_delay_eq)
  have cds: "current_delay ?s = min (max_delay self) ?t"
    by (simp add: s new_delay_eq)
  have low: "current_delay self \<le> ?t"
  proof (rule step_lower)
    show "0 \<le> current_delay self" by (rule Cons.prems(4))
    show "1 \<le> multiplier self" by (rule Cons.prems(1))
    show "0 \<le> jitter self" by (rule Cons.prems(2))
    show "0 \<le> draws e (drawn w)" using Cons.prems(3) by simp
  qed
  have up: "current_delay self \<le> current_delay ?s"
    unfolding cds using low Cons.prems(5) by linarith
  have nn: "0 \<le> current_delay ?s" using up Cons.prems(4) by linarith
  have le: "current_delay ?s \<le> max_delay ?s" unfolding f cds by simp
  have "sorted (current_delay ?s #
      map (\<lambda>x. current_delay (fst (snd x))) (closures e cs ?s (snd (snd ?r))))"
    by (rule Cons.IH) (use Cons.prems(1,2,3) f nn le a' in simp_all)
  then show ?case
    unfolding closures_Cons list.map using up by (simp only: sorted2 simp_thms)
qed

theorem current_delay_non_decreasing_witness:
  "1 \<le> multiplier init_default \<and> 0 \<le> jitter init_default
   \<and> 0 \<le> current_delay init_default \<and> current_delay init_default \<le> max_delay init_default
   \<and> is_active init_default (world0 True)
   \<and> sorted (current_delay init_default #
        map (\<lambda>x. current_delay (fst (snd x)))
          (closures (quiet (1 / 2)) [conn0, conn0, conn0, conn0] init_default (world0 True)))
   \<and> current_delay init_default #
        map (\<lambda>x. current_delay (fst (snd x)))
          (closures (quiet (1 / 2)) [conn0, conn0, conn0, conn0] init_default (world0 True)) =
       [1, 5 / 2, 25 / 4, 125 / 8, 30]"
proof -
  have h1: "1 \<le> multiplier init_default" and h2: "0 \<le> jitter init_default"
    and h4: "0 \<le> current_delay init_default"
    and h5: "current_delay init_default \<le> max_delay init_default"
    by (simp_all add: init_default_def init_def reset_def)
  have h3: "\<forall>n. 0 \<le> draws (quiet (1 / 2)) n \<and> draws (quiet (1 / 2)) n < 1"
    by (simp add: quiet_def)
  have h6: "is_active init_default (world0 True)"
    by (simp add: is_active_def world0_def)
  have v: "current_delay init_default #
        map (\<lambda>x. current_delay (fst (snd x)))
          (closures (quiet (1 / 2)) [conn0, conn0, conn0, conn0] init_default (world0 True)) =
       [1, 5 / 2, 25 / 4, 125 / 8, 30]"
    by (simp add: on_connection_closed_def is_active_def new_delay_eq info_def add_timeout_def
        collaborator_def quiet_def world0_def conn0_def init_default_def init_def reset_def)
  from current_delay_non_decreasing [OF h1 h2 h3 h4 h5 h6, of "[conn0, conn0, conn0, conn0]"]
    h1 h2 h4 h5 h6 v
  show ?thesis by blast
qed

subsection \<open>Resetting on a successful open\<close>

text \<open>
  Claim C3. In any state of a simple strategy (any current delay, any attempt count),
  \<^verbatim>\<open>on_connection_open\<close> returns normally, sets \<open>current_delay\<close> to
  \<open>initial_retry_delay\<close> and \<open>attempts_since_last_success\<close> to 0, and changes nothing
  else; the hook reached through the instance is this method.
\<close>

theorem on_connection_open_resets:
  "on_connection_open c self w =
     (Inr (), self\<lparr>current_delay := initial_retry_delay self,
                  attempts_since_last_success := 0\<rparr>, w)
   \<and> current_delay (fst (snd (on_connection_open c self w))) = initial_retry_delay self
   \<and> attempts_since_last_success (fst (snd (on_connection_open c self w))) = 0
   \<and> hook e (ConnectionOpen c) (SimpleReconnectionStrategy self) w =
       (Inr (), SimpleReconnectionStrategy (reset self), w)"
  by (simp add: on_connection_open_def reset_def lift_simple_def)

subsection \<open>A closed connection while the switch is off\<close>

text \<open>
  Claim C4. When the shared switch is off, \<^verbatim>\<open>on_connection_closed\<close> returns at once:
  the instance (current delay and attempt count) and the process state are what they
  were, so no draw was taken and no call of \<^verbatim>\<open>add_timeout\<close> (or of a logger) was made.
\<close>

theorem on_connection_closed_inactive:
  assumes "\<not> is_active self w"
  shows "on_connection_closed e c self w = (Inr (), self, w)"
  using assms by (simp add: on_connection_closed_def)

theorem on_connection_closed_inactive_witness:
  "\<not> is_active (init_default\<lparr>current_delay := 4, attempts_since_last_success := 3\<rparr>)
       (world0 False)
   \<and> on_connection_closed (quiet 0) conn0
        (init_default\<lparr>current_delay := 4, attempts_since_last_success := 3\<rparr>) (world0 False) =
       (Inr (), init_default\<lparr>current_delay := 4, attempts_since_last_success := 3\<rparr>,
        \<lparr>active = False, drawn = 0, calls = []\<rparr>)"
proof -
  have h: "\<not> is_active (init_default\<lparr>current_delay := 4, attempts_since_last_success := 3\<rparr>)
      (world0 False)"
    by (simp add: is_active_def world0_def)
  show ?thesis
    using h on_connection_closed_inactive [OF h, of "quiet 0" conn0]
    by (simp add: world0_def)
qed

subsection \<open>The null strategy\<close>

text \<open>
  Claim C5. Whatever list of the six hooks is delivered to a null strategy, every call
  returns normally and leaves the instance and the whole process state as they were
  before the first call: the list of collaborator calls does not grow (no timer), and
  the shared switch keeps its value. \<^verbatim>\<open>can_reconnect\<close> is false.
\<close>

theorem null_strategy_inert:
  "run e evs NullReconnectionStrategy w = map (\<lambda>ev. (Inr (), NullReconnectionStrategy, w)) evs
   \<and> \<not> can_reconnect NullReconnectionStrategy"
  by (induction evs) simp_all

subsection \<open>The attempt counter\<close>

text \<open>
  Claim C6. \<^verbatim>\<open>on_connect_attempt\<close> adds exactly 1 to \<open>attempts_since_last_success\<close> and
  changes nothing else (instance or process state). \<^verbatim>\<open>on_connect_attempt_failure\<close>
  leaves the instance as it is, and \<^verbatim>\<open>on_connection_closed\<close> leaves the counter as it
  is, whatever the value of the switch and whatever the collaborators do.
\<close>

theorem attempts_counter_frame:
  "on_connect_attempt c self w =
     (Inr (), self\<lparr>attempts_since_last_success := attempts_since_last_success self + 1\<rparr>, w)
   \<and> fst (snd (on_connect_attempt_failure e c er self w)) = self
   \<and> attempts_since_last_success (fst (snd (on_connection_closed e c self w))) =
       attempts_since_last_success self"
  by (simp add: on_connect_attempt_def on_connect_attempt_failure_def closed_self new_delay_eq
      split: prod.splits)

subsection \<open>Hooks reached through an instance\<close>

lemma lift_simple_proj:
  "fst (lift_simple x) = fst x"
  "fst (snd (lift_simple x)) = SimpleReconnectionStrategy (fst (snd x))"
  "snd (snd (lift_simple x)) = snd (snd x)"
  by (simp_all add: lift_simple_def split: prod.splits)

lemma on_connect_attempt_failure_eq:
  "on_connect_attempt_failure e c er self w =
     ((case raises e (Warning ''Connection failure (attempt %s): %s''
                        [ArgInt (attempts_since_last_success self), ArgErr er]) of
         None \<Rightarrow> Inr () | Some x \<Rightarrow> Inl x),
      self,
      w\<lparr>calls := calls w @ [Warning ''Connection failure (attempt %s): %s''
                                 [ArgInt (attempts_since_last_success self), ArgErr er]]\<rparr>)"
  by (simp add: on_connect_attempt_failure_def warning_def collaborator_def)

lemma hook_active: "active (snd (snd (hook e ev st w))) = active w"
proof (cases st)
  case (SimpleReconnectionStrategy s)
  then show ?thesis
    by (cases ev)
      (simp_all add: lift_simple_proj on_connect_attempt_def on_connect_attempt_failure_eq
        on_connection_open_def closed_world)
qed simp_all

lemma hook_inactive_scheduled:
  assumes "\<not> active w"
  shows "scheduled (calls (snd (snd (hook e ev st w)))) = scheduled (calls w)"
proof (cases st)
  case (SimpleReconnectionStrategy s)
  then show ?thesis using assms
    by (cases ev)
      (simp_all add: lift_simple_proj on_connect_attempt_def on_connect_attempt_failure_eq
        on_connection_open_def closed_inactive scheduled_append)
qed simp_all

lemma run_Cons:
  "run e (ev # evs) st w =
     hook e ev st w # run e evs (fst (snd (hook e ev st w))) (snd (snd (hook e ev st w)))"
  by (simp split: prod.splits)

lemma run_length: "length (run e evs st w) = length evs"
  by (induction evs arbitrary: st w) (simp_all split: prod.splits)

lemma run_inactive:
  "\<not> active w \<Longrightarrow> x \<in> set (run e evs st w) \<Longrightarrow>
   \<not> active (snd (snd x)) \<and> scheduled (calls (snd (snd x))) = scheduled (calls w)"
proof (induction evs arbitrary: st w)
  case Nil
  then show ?case by simp
next
  case (Cons ev evs)
  let ?r = "hook e ev st w"
  have a: "\<not> active (snd (snd ?r))" using Cons.prems(1) by (simp add: hook_active)
  have s: "scheduled (calls (snd (snd ?r))) = scheduled (calls w)"
    using Cons.prems(1) by (rule hook_inactive_scheduled)
  from Cons.prems(2) have "x = ?r \<or> x \<in> set (run e evs (fst (snd ?r)) (snd (snd ?r)))"
    unfolding run_Cons by simp
  then show ?case
  proof
    assume "x = ?r"
    then show ?thesis using a s by simp
  next
    assume "x \<in> set (run e evs (fst (snd ?r)) (snd (snd ?r)))"
    from Cons.IH [OF a this] show ?thesis using s by simp
  qed
qed

lemma hook_closed_inactive:
  "\<not> active w \<Longrightarrow> hook e (ConnectionClosed c) st w = (Inr (), st, w)"
  by (cases st) (simp_all add: lift_simple_def closed_inactive)

text \<open>
  On typed objects the untyped hooks are the typed ones: same outcome (an exception
  being one raised by a collaborator), same instance, same process state.
\<close>

lemma min_py_float: "min_py (PyFloat a) (PyFloat b) = PyFloat (min a b)"
  by (simp add: min_py_def value_of_def min_def)

lemma closed_py_typed:
  "on_connection_closed_py e (conn_obj_of c) (obj_of s) w =
     (case on_connection_closed e c s w of
        (Inl y, s', w') \<Rightarrow> (Inl (Raised y), obj_of s', w')
      | (Inr u, s', w') \<Rightarrow> (Inr (), obj_of s', w'))"
  by (simp add: on_connection_closed_py_def on_connection_closed_def is_active_def
      new_delay_py_def new_delay_def random_py_def as_float_def min_py_float Let_def
      getattr_def conn_obj_of_def obj_of_def from_collaborator_def info_def add_timeout_def
      collaborator_def num_arg_def value_of_def split: option.splits)

lemma hook_py_typed:
  "hook_py e (event_py_of ev) (strategy_obj_of st) w = result_py_of (hook e ev st w)"
proof (cases st)
  case (SimpleReconnectionStrategy s)
  show ?thesis
  proof (cases ev)
    case (ConnectionClosed c)
    then show ?thesis
      unfolding SimpleReconnectionStrategy
      by (simp add: result_py_of_def lift_simple_def lift_simple_py_def closed_py_typed
          split: prod.splits sum.splits)
  next
    case (ConnectAttemptFailure c er)
    then show ?thesis
      unfolding SimpleReconnectionStrategy
      by (simp add: result_py_of_def lift_simple_def lift_simple_py_def
          on_connect_attempt_failure_py_def on_connect_attempt_failure_def obj_of_def
          from_collaborator_def warning_def collaborator_def split: option.splits)
  qed (simp_all add: SimpleReconnectionStrategy result_py_of_def lift_simple_def
        lift_simple_py_def on_connect_attempt_py_def on_connect_attempt_def
        on_connection_open_py_def on_connection_open_def reset_py_def reset_def obj_of_def)
qed (simp_all add: result_py_of_def)







subsection \<open>The switch is shared by all instances\<close>

text \<open>
  Claim C7. For any two instances \<open>a\<close> and \<open>b\<close> of any of the classes and any boolean
  \<open>v\<close>, after \<^verbatim>\<open>a.set_active(v)\<close> the property \<^verbatim>\<open>b.is_active\<close> is \<open>v\<close>. After
  \<^verbatim>\<open>a.set_active(False)\<close>, \<^verbatim>\<open>on_connection_closed\<close> on \<open>b\<close> returns normally and changes
  neither \<open>b\<close> nor the process state; and whatever list of hooks is then delivered to
  \<open>b\<close>, after each of them the switch is still off and no timer has been requested.
  Once \<^verbatim>\<open>a.set_active(True)\<close> has been called (then \<^verbatim>\<open>is_active\<close> is true, by the first
  part), a closure on a simple strategy requests a timer again, with the new delay,
  when no collaborator raises.
\<close>

theorem active_flag_shared:
  "is_active (b::strategy) (set_active (a::strategy) v w) = v
   \<and> hook e (ConnectionClosed c) b (set_active a False w) = (Inr (), b, set_active a False w)
   \<and> (\<forall>x \<in> set (run e evs b (set_active a False w)).
        \<not> is_active (fst (snd x)) (snd (snd x))
        \<and> scheduled (calls (snd (snd x))) = scheduled (calls w))
   \<and> ((\<forall>k. raises e k = None) \<longrightarrow>
        scheduled (calls (snd (snd (hook e (ConnectionClosed c) (SimpleReconnectionStrategy s)
          (set_active a True w))))) =
        scheduled (calls w) @ [fst (new_delay e s (set_active a True w))])"
proof -
  have off: "\<not> active (set_active a False w)" by (simp add: set_active_def)
  have p1: "is_active b (set_active a v w) = v"
    by (simp add: is_active_def set_active_def)
  have p2: "hook e (ConnectionClosed c) b (set_active a False w) =
      (Inr (), b, set_active a False w)"
    using off by (rule hook_closed_inactive)
  have p3: "\<forall>x \<in> set (run e evs b (set_active a False w)).
        \<not> is_active (fst (snd x)) (snd (snd x))
        \<and> scheduled (calls (snd (snd x))) = scheduled (calls w)"
    using run_inactive [OF off, of _ e evs b] by (simp add: is_active_def set_active_def)
  have p4: "(\<forall>k. raises e k = None) \<longrightarrow>
        scheduled (calls (snd (snd (hook e (ConnectionClosed c) (SimpleReconnectionStrategy s)
          (set_active a True w))))) =
        scheduled (calls w) @ [fst (new_delay e s (set_active a True w))]"
  proof
    assume q: "\<forall>k. raises e k = None"
    have on: "active (set_active a True w)" by (simp add: set_active_def)
    from closed_calls_quiet [OF q on, of c s] show "scheduled (calls (snd (snd (hook e (ConnectionClosed c) (SimpleReconnectionStrategy s)
          (set_active a True w))))) =
        scheduled (calls w) @ [fst (new_delay e s (set_active a True w))]"
      by (simp add: lift_simple_proj set_active_def)
  qed
  from p1 p2 p3 p4 show ?thesis by blast
qed

theorem active_flag_shared_witness:
  "is_active (SimpleReconnectionStrategy init_default)
     (set_active NullReconnectionStrategy False (world0 True)) = False
   \<and> run (quiet 0) [ConnectionClosed conn0, ConnectAttemptFailure conn0 ''refused'',
        ConnectionClosed conn0]
        (SimpleReconnectionStrategy init_default)
        (set_active NullReconnectionStrategy False (world0 True)) ! 2 =
       (Inr (), SimpleReconnectionStrategy init_default,
        \<lparr>active = False, drawn = 0,
         calls = [Warning ''Connection failure (attempt %s): %s'' [ArgInt 0, ArgErr ''refused'']]\<rparr>)
   \<and> scheduled (calls (snd (snd
        (run (quiet 0) [ConnectionClosed conn0, ConnectAttemptFailure conn0 ''refused'',
           ConnectionClosed conn0]
           (SimpleReconnectionStrategy init_default)
           (set_active NullReconnectionStrategy False (world0 True)) ! 2)))) = []"
proof -
  let ?evs = "[ConnectionClosed conn0, ConnectAttemptFailure conn0 ''refused'',
        ConnectionClosed conn0]"
  let ?run = "run (quiet 0) ?evs (SimpleReconnectionStrategy init_default)
        (set_active NullReconnectionStrategy False (world0 True))"
  note t = active_flag_shared [of "SimpleReconnectionStrategy init_default"
      NullReconnectionStrategy False "world0 True" "quiet 0" conn0 ?evs init_default]
  have m: "?run ! 2 \<in> set ?run"
    by (rule nth_mem) (simp only: run_length, simp)
  have v: "?run ! 2 =
       (Inr (), SimpleReconnectionStrategy init_default,
        \<lparr>active = False, drawn = 0,
         calls = [Warning ''Connection failure (attempt %s): %s'' [ArgInt 0, ArgErr ''refused'']]\<rparr>)"
    by (simp add: lift_simple_def closed_inactive on_connect_attempt_failure_eq
        set_active_def quiet_def world0_def init_default_def init_def reset_def)
  have w0: "scheduled (calls (world0 True)) = []" by (simp add: world0_def)
  from t [THEN conjunct2, THEN conjunct2, THEN conjunct1, THEN bspec, OF m]
  have "scheduled (calls (snd (snd (?run ! 2)))) = []" by (simp add: w0)
  moreover from t [THEN conjunct1]
  have "is_active (SimpleReconnectionStrategy init_default)
     (set_active NullReconnectionStrategy False (world0 True)) = False" .
  ultimately show ?thesis using v by simp
qed

subsection \<open>Exceptions\<close>




subsection \<open>\<^verbatim>\<open>new_delay\<close> called directly\<close>

text \<open>
  Claim C10. \<^verbatim>\<open>new_delay\<close> returns the value it has just stored in \<open>current_delay\<close>,
  which is the capped product; it never reads the switch: with the switch at any value
  \<open>b\<close> it returns the same delay and the same instance, and the process state differs
  in the switch only. With the switch off and the default parameters a direct call
  moves the delay from 1 to 2 and takes a draw, where \<^verbatim>\<open>on_connection_closed\<close> changes
  nothing.
\<close>

theorem new_delay_ignores_active_flag:
  "fst (new_delay e self w) = current_delay (fst (snd (new_delay e self w)))
   \<and> current_delay (fst (snd (new_delay e self w))) =
       min (max_delay self)
         (current_delay self * ((draws e (drawn w) * jitter self) + 1) * multiplier self)
   \<and> fst (new_delay e self (w\<lparr>active := b\<rparr>)) = fst (new_delay e self w)
   \<and> fst (snd (new_delay e self (w\<lparr>active := b\<rparr>))) = fst (snd (new_delay e self w))
   \<and> snd (snd (new_delay e self (w\<lparr>active := b\<rparr>))) =
       (snd (snd (new_delay e self w)))\<lparr>active := b\<rparr>
   \<and> new_delay (quiet 0) init_default (world0 False) =
       (2, init_default\<lparr>current_delay := 2\<rparr>, \<lparr>active = False, drawn = 1, calls = []\<rparr>)
   \<and> on_connection_closed (quiet 0) conn0 init_default (world0 False) =
       (Inr (), init_default, world0 False)"
  by (simp add: new_delay_eq closed_inactive quiet_def world0_def init_default_def init_def
      reset_def)

end
